theory Spec2Isabelle
  imports Main
begin

section \<open>Responses of the middleware\<close>

text \<open>
  An Express middleware either calls \<open>next()\<close> or ends the request with
  \<open>res.status(n).json({ ..., message })\<close>.  A response is modelled by its status
  code and its message.
\<close>

datatype response = Next | Json nat string

section \<open>The principal attached to a request\<close>

text \<open>
  \<open>req.user\<close> is a plain object.  A property that is not set reads as
  \<open>undefined\<close>, which is \<open>None\<close> here.  \<open>modules\<close> is read by
  \<open>authorize\<close>, \<open>assignedCycles\<close> by \<open>canManageCycle\<close>.  The role is copied
  from a stored document: a string, or \<open>null\<close> (\<open>None\<close>).
\<close>

record principal =
  p_userId :: nat
  p_email :: string
  p_role :: "string option"
  p_modules :: "string list option"
  p_assignedCycles :: "string list option"

section \<open>JavaScript values used by the role hierarchy check\<close>

text \<open>
  Reading \<open>roleHierarchy[k]\<close> on the object literal gives a number for the nine own
  keys, an inherited member of \<open>Object.prototype\<close> (a function or an object) for
  the names below, and \<open>undefined\<close> otherwise.
\<close>

datatype hval = Num nat | Inherited | Undefined

definition objectPrototypeKeys :: "string list" where
  "objectPrototypeKeys =
     [''constructor'', ''__proto__'', ''hasOwnProperty'', ''isPrototypeOf'',
      ''propertyIsEnumerable'', ''toLocaleString'', ''toString'', ''valueOf'',
      ''__defineGetter__'', ''__defineSetter__'', ''__lookupGetter__'',
      ''__lookupSetter__'']"

definition roleHierarchy :: "string \<Rightarrow> hval" where
  "roleHierarchy k =
     (if k = ''super_admin'' then Num 100
      else if k = ''admin'' then Num 90
      else if k = ''dube_admin'' then Num 80
      else if k = ''wfp_admin'' then Num 80
      else if k = ''dube_viewer'' then Num 70
      else if k = ''wfp_viewer'' then Num 70
      else if k = ''dube_field_agent'' then Num 60
      else if k = ''wfp_health_officer'' then Num 60
      else if k = ''user'' then Num 0
      else if k \<in> set objectPrototypeKeys then Inherited
      else Undefined)"

text \<open>
  \<open>roleHierarchy[role] || 0\<close>: \<open>undefined\<close> and \<open>0\<close> are falsy and give
  \<open>0\<close>; an inherited member is truthy and is kept (\<open>None\<close>: not a number).
\<close>

fun or_zero :: "hval \<Rightarrow> nat option" where
  "or_zero (Num n) = Some n"
| "or_zero Undefined = Some 0"
| "or_zero Inherited = None"

text \<open>
  \<open>Math.max(...levels)\<close> is \<open>-Infinity\<close> on no arguments, \<open>NaN\<close> as soon as one
  argument does not convert to a number, and the greatest argument otherwise.
\<close>

datatype level = NegInfinity | Fin nat | NaN

fun max_level :: "level \<Rightarrow> nat option \<Rightarrow> level" where
  "max_level NaN x = NaN"
| "max_level l None = NaN"
| "max_level NegInfinity (Some n) = Fin n"
| "max_level (Fin m) (Some n) = Fin (max m n)"

definition Math_max :: "nat option list \<Rightarrow> level" where
  "Math_max xs = foldl max_level NegInfinity xs"

text \<open>
  \<open>a < b\<close> with \<open>a = roleHierarchy[userRole]\<close> and \<open>b\<close> the result of
  \<open>Math.max\<close>: \<open>undefined\<close> and the inherited members convert to \<open>NaN\<close>, and
  every comparison with \<open>NaN\<close> is false; no number is below \<open>-Infinity\<close>.
\<close>

fun js_less :: "hval \<Rightarrow> level \<Rightarrow> bool" where
  "js_less (Num n) (Fin m) = (n < m)"
| "js_less a b = False"

section \<open>String helpers\<close>

text \<open>
  \<open>String.prototype.toUpperCase\<close> on the letters a to z; every other character of
  a \<open>string\<close> (a list of bytes) stays as it is.
\<close>

definition toUpperCase_char :: "char \<Rightarrow> char" where
  "toUpperCase_char c =
     (case map_of (zip ''abcdefghijklmnopqrstuvwxyz'' ''ABCDEFGHIJKLMNOPQRSTUVWXYZ'') c of
        None \<Rightarrow> c
      | Some d \<Rightarrow> d)"

definition toUpperCase :: "string \<Rightarrow> string" where
  "toUpperCase s = map toUpperCase_char s"

text \<open>A string is truthy when it is not empty; \<open>null\<close> (\<open>None\<close>) is falsy.\<close>

fun truthy :: "string option \<Rightarrow> bool" where
  "truthy None = False"
| "truthy (Some s) = (s \<noteq> [])"

section \<open>The authorize middleware\<close>

text \<open>
  \<open>authorize(allowedRoles, module)(req, res, next)\<close>, with \<open>req.user\<close> as the
  third argument (\<open>None\<close> when no principal is attached).  The checks are in the
  order of the source.
\<close>

text \<open>
  As the key of a property read, \<open>null\<close> is the name \<open>null\<close>; it is equal to
  no string.
\<close>

definition role_key :: "string option \<Rightarrow> string" where
  "role_key r = (case r of None \<Rightarrow> ''null'' | Some s \<Rightarrow> s)"

definition userModules :: "principal \<Rightarrow> string list" where
  "userModules u = (case p_modules u of None \<Rightarrow> [] | Some ms \<Rightarrow> ms)"

definition authorize :: "string list \<Rightarrow> string option \<Rightarrow> principal option \<Rightarrow> response" where
  "authorize allowedRoles module user =
     (case user of
        None \<Rightarrow> Json 401 ''Authentication required''
      | Some u \<Rightarrow>
          let userRole = p_role u in
          if userRole = Some ''super_admin'' then Next
          else if truthy module \<and> the module \<notin> set (userModules u) then
            Json 403 (''Access denied. You don't have access to '' @ toUpperCase (the module)
                      @ '' module.'')
          else if length allowedRoles > 0 \<and> userRole \<notin> set (map Some allowedRoles) then
            Json 403 ''Access denied. Insufficient permissions.''
          else if truthy module \<and> userRole = Some ''admin'' then Next
          else
            let allowedRoleLevels = map (\<lambda>role. or_zero (roleHierarchy role)) allowedRoles;
                minRequiredLevel = Math_max allowedRoleLevels
            in if js_less (roleHierarchy (role_key userRole)) minRequiredLevel then
                 Json 403 ''Access denied. Higher privileges required.''
               else Next)"

section \<open>The configuration read from the environment\<close>

text \<open>
  \<open>process.env\<close>: a variable that is not set reads as \<open>undefined\<close>.  The two
  expiration settings are kept in seconds, as \<open>jsonwebtoken\<close> resolves them.
\<close>

record env =
  JWT_SECRET :: "string option"
  JWT_REFRESH_SECRET :: "string option"
  JWT_ACCESS_EXPIRATION :: "nat option"
  JWT_REFRESH_EXPIRATION :: "nat option"

definition access_expiresIn :: "env \<Rightarrow> nat" where
  "access_expiresIn e = (case JWT_ACCESS_EXPIRATION e of None \<Rightarrow> 15 * 60 | Some n \<Rightarrow> n)"

definition refresh_expiresIn :: "env \<Rightarrow> nat" where
  "refresh_expiresIn e =
     (case JWT_REFRESH_EXPIRATION e of None \<Rightarrow> 7 * 24 * 60 * 60 | Some n \<Rightarrow> n)"

section \<open>Signed tokens\<close>

text \<open>
  \<open>jsonwebtoken\<close> is a library outside the repository.  A token is modelled
  symbolically: \<open>Signed c k iat exp\<close> is the compact serialisation of the claims
  \<open>c\<close>, issued at second \<open>iat\<close>, expiring at second \<open>exp\<close> and signed with the
  key \<open>k\<close>; \<open>Garbage s\<close> is any other string.  Signing is deterministic (HS256), so
  equal arguments give the same token, and a signature verifies under the key it was
  made with and under no other.  The clock is in milliseconds, as \<open>Date.now()\<close>.
\<close>

type_synonym user_id = nat

datatype claims =
    AccessClaims user_id string "string option" "string list option"
  | RefreshClaims user_id

fun claims_userId :: "claims \<Rightarrow> user_id" where
  "claims_userId (AccessClaims i e r ms) = i"
| "claims_userId (RefreshClaims i) = i"

datatype token = Signed claims string nat nat | Garbage string

datatype jwt_error = TokenExpiredError | JsonWebTokenError

text \<open>\<open>jwt.sign\<close> throws when the secret is missing or empty: \<open>None\<close>.\<close>

definition jwt_sign :: "claims \<Rightarrow> string option \<Rightarrow> nat \<Rightarrow> nat \<Rightarrow> token option" where
  "jwt_sign payload secret expiresIn now =
     (if truthy secret
      then Some (Signed payload (the secret) (now div 1000) (now div 1000 + expiresIn))
      else None)"

text \<open>
  \<open>jwt.verify\<close>: a malformed token, a missing secret and a bad signature are
  \<open>JsonWebTokenError\<close>s; the expiry is looked at only after the signature.
\<close>

definition jwt_verify :: "token \<Rightarrow> string option \<Rightarrow> nat \<Rightarrow> jwt_error + claims" where
  "jwt_verify tok secret now =
     (case tok of
        Garbage s \<Rightarrow> Inl JsonWebTokenError
      | Signed payload k iat exp \<Rightarrow>
          if \<not> truthy secret then Inl JsonWebTokenError
          else if k \<noteq> the secret then Inl JsonWebTokenError
          else if exp \<le> now div 1000 then Inl TokenExpiredError
          else Inr payload)"

section \<open>The User model\<close>

text \<open>
  A stored document.  The schema gives \<open>role\<close> an enumeration and a default and
  does not require it, so a document's role is a string or \<open>null\<close> (\<open>None\<close>).
\<close>

record user =
  u_id :: user_id
  u_name :: string
  u_email :: string
  u_password :: string
  u_role :: "string option"
  u_accessibleModules :: "string list"
  u_isActive :: bool

definition ROLES :: "string list" where
  "ROLES = [''admin'', ''dube_admin'', ''dube_viewer'', ''wfp_admin'', ''wfp_viewer'', ''user'']"

text \<open>
  The setters of the schema run when a path is assigned: \<open>name\<close> is trimmed,
  \<open>email\<close> is trimmed and put in lower case.  Whitespace is the space and the
  control characters tab, line feed, vertical tab, form feed and carriage return;
  the white space beyond ASCII is several bytes of a \<open>string\<close> and is not
  trimmed here.
\<close>

definition is_space :: "char \<Rightarrow> bool" where
  "is_space c = (c \<in> set [CHR '' '', CHR 0x09, CHR 0x0A, CHR 0x0B, CHR 0x0C, CHR 0x0D])"

definition js_trim :: "string \<Rightarrow> string" where
  "js_trim s = rev (dropWhile is_space (rev (dropWhile is_space s)))"

definition toLowerCase_char :: "char \<Rightarrow> char" where
  "toLowerCase_char c =
     (case map_of (zip ''ABCDEFGHIJKLMNOPQRSTUVWXYZ'' ''abcdefghijklmnopqrstuvwxyz'') c of
        None \<Rightarrow> c
      | Some d \<Rightarrow> d)"

definition toLowerCase :: "string \<Rightarrow> string" where
  "toLowerCase s = map toLowerCase_char s"

definition userSchema_set :: "user \<Rightarrow> user" where
  "userSchema_set u =
     u\<lparr>u_name := js_trim (u_name u), u_email := toLowerCase (js_trim (u_email u))\<rparr>"

text \<open>
  \<open>new User({ name, email, password, role })\<close>, as \<open>register\<close> builds it.  The
  default of \<open>role\<close> replaces \<open>undefined\<close> only; \<open>null\<close> stays.  The other paths
  take their defaults.
\<close>

datatype role_field = RoleUndefined | RoleNull | RoleString string

definition new_User :: "user_id \<Rightarrow> string \<Rightarrow> string \<Rightarrow> string \<Rightarrow> role_field \<Rightarrow> user" where
  "new_User i name email password role =
     userSchema_set
       \<lparr>u_id = i, u_name = name, u_email = email, u_password = password,
        u_role = (case role of
                    RoleUndefined \<Rightarrow> Some ''user''
                  | RoleNull \<Rightarrow> None
                  | RoleString r \<Rightarrow> Some r),
        u_accessibleModules = [], u_isActive = True\<rparr>"

text \<open>
  The schema's validators, run by every \<open>save\<close> on the values the setters left:
  name and password are required and have a least length, the e-mail is required,
  and the two enumerations (\<open>role\<close> over \<open>Object.values(ROLES)\<close>,
  \<open>accessibleModules\<close> over dube and wfp).  The enumeration of \<open>role\<close> accepts
  \<open>null\<close>.  The e-mail pattern, the phone number and the country code have
  validators too; they read no role and are left out, and the example documents
  below satisfy them.  The hook that replaces the password by its hash runs after
  validation and is not modelled.
\<close>

definition userSchema_validate :: "user \<Rightarrow> bool" where
  "userSchema_validate u =
     (2 \<le> length (u_name u) \<and> u_email u \<noteq> [] \<and> 6 \<le> length (u_password u)
      \<and> (case u_role u of None \<Rightarrow> True | Some r \<Rightarrow> r \<in> set ROLES)
      \<and> set (u_accessibleModules u) \<subseteq> {''dube'', ''wfp''})"

datatype db_error = ValidationError | DuplicateKey

text \<open>
  \<open>user.save()\<close>: validation, then the unique index on the e-mail, then the
  document replaces the stored one with its \<open>_id\<close> or is appended.  A
  collection is the list of its documents, in insertion order; the database is
  taken to be reachable, so that a call fails only by validation or by a unique
  index.
\<close>

definition User_save :: "user list \<Rightarrow> user \<Rightarrow> db_error + user list" where
  "User_save users u =
     (if \<not> userSchema_validate u then Inl ValidationError
      else if \<exists>v \<in> set users. u_email v = u_email u \<and> u_id v \<noteq> u_id u then Inl DuplicateKey
      else if u_id u \<in> set (map u_id users)
        then Inr (map (\<lambda>v. if u_id v = u_id u then u else v) users)
        else Inr (users @ [u]))"

definition User_findById :: "user list \<Rightarrow> user_id \<Rightarrow> user option" where
  "User_findById users i = find (\<lambda>u. u_id u = i) users"

text \<open>
  The stores that the User model can produce, starting from the empty collection:
  each step saves a document whose paths went through the setters.
\<close>

inductive persisted :: "user list \<Rightarrow> bool" where
  persisted_empty: "persisted []"
| persisted_save:
    "persisted users \<Longrightarrow> User_save users (userSchema_set u) = Inr users' \<Longrightarrow> persisted users'"

text \<open>
  The schema declares \<open>accessibleModules\<close> and no path \<open>modules\<close>, so
  \<open>user.modules\<close> on a loaded document is \<open>undefined\<close>.
\<close>

definition user_modules :: "user \<Rightarrow> string list option" where
  "user_modules u = None"

section \<open>The Token model\<close>

text \<open>
  The fields \<open>ipAddress\<close>, \<open>userAgent\<close> and the timestamps are stored and never
  read; they are left out.  \<open>t_expiresAt\<close> is in milliseconds.  The background
  deletion of expired documents by the TTL index is not modelled: it only removes
  documents that \<open>Token.findOne\<close> no longer returns.
\<close>

record token_doc =
  t_id :: nat
  t_userId :: user_id
  t_token :: token
  t_type :: string
  t_expiresAt :: nat
  t_used :: bool

definition fresh_id :: "token_doc list \<Rightarrow> nat" where
  "fresh_id docs = Suc (foldr max (map t_id docs) 0)"

text \<open>
  \<open>Token.create\<close>: the \<open>type\<close> enumeration, then the unique index on \<open>token\<close>;
  \<open>used\<close> takes its default.
\<close>

definition Token_create ::
  "token_doc list \<Rightarrow> user_id \<Rightarrow> token \<Rightarrow> string \<Rightarrow> nat \<Rightarrow> db_error + token_doc list" where
  "Token_create docs userId tok type expiresAt =
     (if type \<notin> set [''refresh'', ''reset_password'', ''verify_email''] then Inl ValidationError
      else if tok \<in> set (map t_token docs) then Inl DuplicateKey
      else Inr (docs @ [\<lparr>t_id = fresh_id docs, t_userId = userId, t_token = tok,
                          t_type = type, t_expiresAt = expiresAt, t_used = False\<rparr>]))"

text \<open>
  \<open>Token.findOne({ token, type: "refresh", used: false, expiresAt: { $gt: now } })\<close>.
\<close>

definition Token_findOne :: "token_doc list \<Rightarrow> token \<Rightarrow> nat \<Rightarrow> token_doc option" where
  "Token_findOne docs tok now =
     find (\<lambda>d. t_token d = tok \<and> t_type d = ''refresh'' \<and> t_used d = False
                \<and> now < t_expiresAt d) docs"

text \<open>
  \<open>tokenDoc.used = true; await tokenDoc.save()\<close> writes the one modified path of the
  document with that \<open>_id\<close>.
\<close>

definition Token_markUsed :: "token_doc list \<Rightarrow> nat \<Rightarrow> token_doc list" where
  "Token_markUsed docs i = map (\<lambda>d. if t_id d = i then d\<lparr>t_used := True\<rparr> else d) docs"

section \<open>The authentication middleware\<close>

text \<open>
  The \<open>Authorization\<close> header: missing (\<open>None\<close>), not starting with
  \<open>Bearer\<close> and a space, or carrying a token.
\<close>

datatype auth_header = Bearer token | NotBearer string

text \<open>
  \<open>authenticate\<close> ends the request (\<open>Inl\<close>, status and message) or attaches the
  principal and calls \<open>next()\<close> (\<open>Inr\<close>).
\<close>

definition authenticate ::
  "env \<Rightarrow> nat \<Rightarrow> user list \<Rightarrow> auth_header option \<Rightarrow> (nat \<times> string) + principal" where
  "authenticate e now users authHeader =
     (case authHeader of
        None \<Rightarrow> Inl (401, ''Access denied. No token provided.'')
      | Some (NotBearer s) \<Rightarrow> Inl (401, ''Access denied. No token provided.'')
      | Some (Bearer tok) \<Rightarrow>
          (case jwt_verify tok (JWT_SECRET e) now of
             Inl TokenExpiredError \<Rightarrow> Inl (401, ''Token expired'')
           | Inl JsonWebTokenError \<Rightarrow> Inl (401, ''Invalid token'')
           | Inr decoded \<Rightarrow>
               (case User_findById users (claims_userId decoded) of
                  None \<Rightarrow> Inl (401, ''User not found'')
                | Some u \<Rightarrow>
                    if \<not> u_isActive u then Inl (403, ''Account is deactivated'')
                    else Inr \<lparr>p_userId = u_id u, p_email = u_email u, p_role = u_role u,
                              p_modules = user_modules u, p_assignedCycles = None\<rparr>)))"

section \<open>The auth controller: issuing and refreshing tokens\<close>

text \<open>\<open>generateTokens\<close> throws (\<open>None\<close>) when either \<open>jwt.sign\<close> throws.\<close>

definition generateTokens :: "env \<Rightarrow> nat \<Rightarrow> user \<Rightarrow> (token \<times> token) option" where
  "generateTokens e now u =
     (case jwt_sign (AccessClaims (u_id u) (u_email u) (u_role u) (user_modules u))
             (JWT_SECRET e) (access_expiresIn e) now of
        None \<Rightarrow> None
      | Some accessToken \<Rightarrow>
          (case jwt_sign (RefreshClaims (u_id u)) (JWT_REFRESH_SECRET e)
                  (refresh_expiresIn e) now of
             None \<Rightarrow> None
           | Some refreshToken \<Rightarrow> Some (accessToken, refreshToken)))"

definition saveRefreshToken ::
  "token_doc list \<Rightarrow> user_id \<Rightarrow> token \<Rightarrow> nat \<Rightarrow> db_error + token_doc list" where
  "saveRefreshToken docs userId refreshToken now =
     Token_create docs userId refreshToken ''refresh'' (now + 7 * 24 * 60 * 60 * 1000)"

text \<open>
  A controller's reply: the status, the message and, on success, the pair
  \<open>(accessToken, refreshToken)\<close> of \<open>data\<close>.
\<close>

datatype reply = Reply nat string "(token \<times> token) option"

text \<open>
  \<open>AuthController.refreshToken\<close> runs in four stretches, separated by the awaited
  database calls.  Each stretch is a function; \<open>now\<close> is the clock when it runs.

  Lines 204 to 237: the body's token (falsy when missing or the empty string),
  \<open>jwt.verify\<close> with the refresh secret, \<open>Token.findOne\<close>.
\<close>

definition rt_begin ::
  "env \<Rightarrow> nat \<Rightarrow> token option \<Rightarrow> token_doc list \<Rightarrow> reply + (claims \<times> token_doc)" where
  "rt_begin e now refreshToken docs =
     (case refreshToken of
        None \<Rightarrow> Inl (Reply 400 ''Refresh token is required'' None)
      | Some tok \<Rightarrow>
          if tok = Garbage [] then Inl (Reply 400 ''Refresh token is required'' None)
          else
            (case jwt_verify tok (JWT_REFRESH_SECRET e) now of
               Inl err \<Rightarrow> Inl (Reply 401 ''Invalid refresh token'' None)
             | Inr decoded \<Rightarrow>
                 (case Token_findOne docs tok now of
                    None \<Rightarrow> Inl (Reply 401 ''Refresh token expired or invalid'' None)
                  | Some tokenDoc \<Rightarrow> Inr (decoded, tokenDoc))))"

text \<open>
  Lines 239 to 250: \<open>User.findById\<close>, then \<open>generateTokens\<close>, whose exception
  reaches the outer \<open>catch\<close>.
\<close>

definition rt_load ::
  "env \<Rightarrow> nat \<Rightarrow> user list \<Rightarrow> claims \<Rightarrow> reply + (user \<times> token \<times> token)" where
  "rt_load e now users decoded =
     (case User_findById users (claims_userId decoded) of
        None \<Rightarrow> Inl (Reply 401 ''User not found'' None)
      | Some u \<Rightarrow>
          (case generateTokens e now u of
             None \<Rightarrow> Inl (Reply 500 ''Token refresh failed'' None)
           | Some (newAccessToken, newRefreshToken) \<Rightarrow>
               Inr (u, newAccessToken, newRefreshToken)))"

text \<open>Lines 252 to 254: the old document is marked used.\<close>

definition rt_mark :: "token_doc list \<Rightarrow> token_doc \<Rightarrow> token_doc list" where
  "rt_mark docs tokenDoc = Token_markUsed docs (t_id tokenDoc)"

text \<open>Lines 256 to 271: the new refresh token is stored and the pair is returned.\<close>

definition rt_finish ::
  "nat \<Rightarrow> token_doc list \<Rightarrow> user \<Rightarrow> token \<Rightarrow> token \<Rightarrow> reply \<times> token_doc list" where
  "rt_finish now docs u newAccessToken newRefreshToken =
     (case saveRefreshToken docs (u_id u) newRefreshToken now of
        Inl err \<Rightarrow> (Reply 500 ''Token refresh failed'' None, docs)
      | Inr docs' \<Rightarrow>
          (Reply 200 ''Token refreshed successfully''
             (Some (newAccessToken, newRefreshToken)), docs'))"

text \<open>
  One request handled alone: the stretches run one after the other on the same
  store.  The clock is read in three of them.
\<close>

record clock =
  c_begin :: nat
  c_load :: nat
  c_finish :: nat

definition refreshToken ::
  "env \<Rightarrow> clock \<Rightarrow> token option \<Rightarrow> user list \<Rightarrow> token_doc list \<Rightarrow> reply \<times> token_doc list" where
  "refreshToken e c body users docs =
     (case rt_begin e (c_begin c) body docs of
        Inl rep \<Rightarrow> (rep, docs)
      | Inr (decoded, tokenDoc) \<Rightarrow>
          (case rt_load e (c_load c) users decoded of
             Inl rep \<Rightarrow> (rep, docs)
           | Inr (u, newAccessToken, newRefreshToken) \<Rightarrow>
               rt_finish (c_finish c) (rt_mark docs tokenDoc) u newAccessToken newRefreshToken))"

subsection \<open>Requests in flight together\<close>

text \<open>
  Node runs a handler until its next \<open>await\<close> and may then run another request.
  The state of a request in flight records the stretch it has completed and its
  local variables.
\<close>

datatype rt_state =
    Start "token option"
  | Found claims token_doc
  | Loaded user token token token_doc
  | Marked user token token
  | Done reply

fun rt_step ::
  "env \<Rightarrow> nat \<Rightarrow> user list \<Rightarrow> rt_state \<Rightarrow> token_doc list \<Rightarrow> (rt_state \<times> token_doc list) option" where
  "rt_step e now users (Start body) docs =
     Some (case rt_begin e now body docs of
             Inl rep \<Rightarrow> Done rep
           | Inr (decoded, tokenDoc) \<Rightarrow> Found decoded tokenDoc, docs)"
| "rt_step e now users (Found decoded tokenDoc) docs =
     Some (case rt_load e now users decoded of
             Inl rep \<Rightarrow> Done rep
           | Inr (u, a, r) \<Rightarrow> Loaded u a r tokenDoc, docs)"
| "rt_step e now users (Loaded u a r tokenDoc) docs =
     Some (Marked u a r, rt_mark docs tokenDoc)"
| "rt_step e now users (Marked u a r) docs =
     Some (case rt_finish now docs u a r of (rep, docs') \<Rightarrow> (Done rep, docs'))"
| "rt_step e now users (Done rep) docs = None"

text \<open>
  A step of the server: the clock does not go back, and one of the requests in
  flight runs its next stretch on the shared store.
\<close>

inductive server_step ::
  "env \<Rightarrow> user list \<Rightarrow> nat \<times> rt_state list \<times> token_doc list
     \<Rightarrow> nat \<times> rt_state list \<times> token_doc list \<Rightarrow> bool" where
  "now \<le> now' \<Longrightarrow> i < length rs \<Longrightarrow> rt_step e now' users (rs ! i) docs = Some (s', docs')
     \<Longrightarrow> server_step e users (now, rs, docs) (now', rs[i := s'], docs')"

section \<open>JavaScript values in a request\<close>








section \<open>The cycle guard of the WFP module\<close>





section \<open>Example data\<close>

text \<open>
  A configuration with two secrets and one with the same secret for both kinds of
  token; an active and a deactivated account, and an account built with the role
  \<open>null\<close>; the tokens that a login of each at clock 1000000 issues, and the
  stores holding them.
\<close>

definition env0 :: env where
  "env0 = \<lparr>JWT_SECRET = Some ''access-secret'', JWT_REFRESH_SECRET = Some ''refresh-secret'',
            JWT_ACCESS_EXPIRATION = None, JWT_REFRESH_EXPIRATION = None\<rparr>"

definition env_shared :: env where
  "env_shared = \<lparr>JWT_SECRET = Some ''one-secret'', JWT_REFRESH_SECRET = Some ''one-secret'',
                  JWT_ACCESS_EXPIRATION = None, JWT_REFRESH_EXPIRATION = None\<rparr>"

definition alice :: user where
  "alice = \<lparr>u_id = 7, u_name = ''Alice'', u_email = ''alice@example.org'',
             u_password = ''$2a$10$hashed'', u_role = Some ''wfp_viewer'',
             u_accessibleModules = [''wfp''], u_isActive = True\<rparr>"

definition bob :: user where
  "bob = \<lparr>u_id = 8, u_name = ''Bob'', u_email = ''bob@example.org'',
           u_password = ''$2a$10$hashed'', u_role = Some ''dube_viewer'',
           u_accessibleModules = [''dube''], u_isActive = False\<rparr>"

definition carol :: user where
  "carol = new_User 9 '' Carol '' ''Carol@Example.org'' ''S3cret!pw'' RoleNull"

definition alice_refresh :: token where
  "alice_refresh = Signed (RefreshClaims 7) ''refresh-secret'' 1000 605800"

definition alice_refresh2 :: token where
  "alice_refresh2 = Signed (RefreshClaims 7) ''refresh-secret'' 1500 606300"

definition alice_access :: token where
  "alice_access =
     Signed (AccessClaims 7 ''alice@example.org'' (Some ''wfp_viewer'') None)
       ''access-secret'' 1000 1900"

definition bob_access :: token where
  "bob_access =
     Signed (AccessClaims 8 ''bob@example.org'' (Some ''dube_viewer'') None)
       ''access-secret'' 1000 1900"

definition bob_refresh :: token where
  "bob_refresh = Signed (RefreshClaims 8) ''refresh-secret'' 1000 605800"

definition carol_access :: token where
  "carol_access =
     Signed (AccessClaims 9 ''carol@example.org'' None None) ''access-secret'' 1000 1900"

definition alice_store :: "token_doc list" where
  "alice_store =
     [\<lparr>t_id = 1, t_userId = 7, t_token = alice_refresh, t_type = ''refresh'',
        t_expiresAt = 605800000, t_used = False\<rparr>]"

definition alice_store_replayed :: "token_doc list" where
  "alice_store_replayed =
     [\<lparr>t_id = 1, t_userId = 7, t_token = alice_refresh, t_type = ''refresh'',
        t_expiresAt = 605800000, t_used = True\<rparr>,
      \<lparr>t_id = 2, t_userId = 7, t_token = alice_refresh2, t_type = ''refresh'',
        t_expiresAt = 606300000, t_used = False\<rparr>]"

definition bob_store :: "token_doc list" where
  "bob_store =
     [\<lparr>t_id = 1, t_userId = 8, t_token = bob_refresh, t_type = ''refresh'',
        t_expiresAt = 605800000, t_used = False\<rparr>]"

definition wfp_admin_principal :: principal where
  "wfp_admin_principal =
     \<lparr>p_userId = 3, p_email = ''chief@example.org'', p_role = Some ''wfp_admin'',
      p_modules = Some [''wfp''], p_assignedCycles = None\<rparr>"

definition wfp_viewer_principal :: principal where
  "wfp_viewer_principal =
     \<lparr>p_userId = 4, p_email = ''viewer@example.org'', p_role = Some ''wfp_viewer'',
      p_modules = Some [''wfp''], p_assignedCycles = Some [''cycle-1'']\<rparr>"

definition plain_user_principal :: principal where
  "plain_user_principal =
     \<lparr>p_userId = 5, p_email = ''user@example.org'', p_role = Some ''user'',
      p_modules = None, p_assignedCycles = None\<rparr>"




section \<open>Auxiliary facts\<close>

lemmas refresh_eval =
  generateTokens_def jwt_sign_def jwt_verify_def user_modules_def access_expiresIn_def
  refresh_expiresIn_def saveRefreshToken_def Token_create_def fresh_id_def refreshToken_def
  rt_begin_def rt_load_def rt_mark_def rt_finish_def Token_findOne_def Token_markUsed_def
  User_findById_def

lemmas example_data =
  env0_def env_shared_def alice_def bob_def alice_refresh_def alice_refresh2_def bob_access_def
  bob_refresh_def alice_store_def alice_store_replayed_def bob_store_def

lemmas authorize_eval =
  authorize_def role_key_def userModules_def toUpperCase_def toUpperCase_char_def Math_max_def
  roleHierarchy_def objectPrototypeKeys_def wfp_admin_principal_def wfp_viewer_principal_def
  plain_user_principal_def

lemma find_SomeD: "find P xs = Some x \<Longrightarrow> x \<in> set xs \<and> P x"
  by (induction xs) (auto split: if_splits)

lemma find_NoneI: "(\<And>x. x \<in> set xs \<Longrightarrow> \<not> P x) \<Longrightarrow> find P xs = None"
  by (induction xs) auto

lemma distinct_map_eq:
  "distinct (map f xs) \<Longrightarrow> x \<in> set xs \<Longrightarrow> y \<in> set xs \<Longrightarrow> f x = f y \<Longrightarrow> x = y"
  by (meson distinct_map inj_on_def)

subsection \<open>The role table\<close>




section \<open>The authorize middleware: module isolation and the role list\<close>

text \<open>
  The level required is the greatest level of the list: a listed role below it is
  refused.  The WFP viewer is refused on the route listing \<open>wfp_admin\<close> and
  \<open>wfp_viewer\<close>, and the administrator passes.
\<close>

lemma authorize_listed_lower_role_denied:
  "authorize [''wfp_admin'', ''wfp_viewer''] (Some ''wfp'') (Some wfp_viewer_principal)
     = Json 403 ''Access denied. Higher privileges required.''
   \<and> authorize [''wfp_admin'', ''wfp_viewer''] (Some ''wfp'') (Some wfp_admin_principal) = Next"
  by (simp add: authorize_eval)

text \<open>
  C1.  For a principal whose role is not \<open>super_admin\<close> and a requirement whose
  module is set (a non-empty name) and is not among the principal's modules,
  \<open>authorize\<close> answers 403 with the module message, whatever \<open>allowedRoles\<close> is
  and whatever the rank of the principal's role: the module test comes before the
  role list and the rank comparison.
\<close>

theorem authorize_module_isolation_first:
  assumes "p_role u \<noteq> Some ''super_admin''"
    and "m \<noteq> []"
    and "m \<notin> set (userModules u)"
  shows "authorize allowedRoles (Some m) (Some u) =
           Json 403 (''Access denied. You don't have access to '' @ toUpperCase m @ '' module.'')"
  using assms by (simp add: authorize_def)

text \<open>
  An instance: the WFP administrator (rank 80) on a DUBE endpoint whose list names a
  role of rank 70 and the administrator's own role.
\<close>

theorem authorize_module_isolation_first_witness:
  "p_role wfp_admin_principal \<noteq> Some ''super_admin''
   \<and> ''dube'' \<notin> set (userModules wfp_admin_principal)
   \<and> authorize [''dube_viewer'', ''wfp_admin''] (Some ''dube'') (Some wfp_admin_principal)
       = Json 403 ''Access denied. You don't have access to DUBE module.''"
  using authorize_module_isolation_first
          [of wfp_admin_principal "''dube''" "[''dube_viewer'', ''wfp_admin'']"]
  by (simp add: wfp_admin_principal_def userModules_def toUpperCase_def toUpperCase_char_def)

text \<open>
  C9.  With an empty \<open>allowedRoles\<close>, every principal is let through as soon as the
  module test passes (no module, or a module among the principal's): the role list
  is skipped and no level is below \<open>Math.max()\<close> of nothing.
\<close>

theorem authorize_empty_roles_open:
  assumes "case module of None \<Rightarrow> True | Some m \<Rightarrow> m \<in> set (userModules u)"
  shows "authorize [] module (Some u) = Next"
  using assms
  by (cases module) (auto simp: authorize_def Math_max_def Let_def elim: js_less.elims)

text \<open>An instance: the plain user, of rank 0, on a route without module.\<close>

theorem authorize_empty_roles_open_witness:
  "p_role plain_user_principal = Some ''user'' \<and> roleHierarchy ''user'' = Num 0
   \<and> authorize [] None (Some plain_user_principal) = Next"
  using authorize_empty_roles_open [where module = None and u = plain_user_principal]
  by (simp add: plain_user_principal_def roleHierarchy_def)

text \<open>
  C4, as stated, fails: the WFP administrator, with the module among its modules, is
  refused on a WFP endpoint whose list does not name \<open>wfp_admin\<close>.
\<close>

theorem authorize_module_admin_bypass_counterexample:
  "authorize [''wfp_viewer'', ''wfp_health_officer''] (Some ''wfp'') (Some wfp_admin_principal)
     = Json 403 ''Access denied. Insufficient permissions.''"
  by (simp add: authorize_eval)

text \<open>
  C4, amended.  For a requirement with a non-empty \<open>allowedRoles\<close> and a module, the
  administrator of that module (\<open>wfp_admin\<close> for wfp, \<open>dube_admin\<close> for dube), with
  the module among its modules, is refused with 403 when its role is not listed:
  the role list is tested before any special case for administrators.
\<close>

theorem authorize_unlisted_module_admin_denied:
  assumes "p_role u = Some (m @ ''_admin'')"
    and "m \<in> {''wfp'', ''dube''}"
    and "m \<in> set (userModules u)"
    and "allowedRoles \<noteq> []"
    and "m @ ''_admin'' \<notin> set allowedRoles"
  shows "authorize allowedRoles (Some m) (Some u)
           = Json 403 ''Access denied. Insufficient permissions.''"
  using assms by (auto simp: authorize_def Let_def)

theorem authorize_unlisted_module_admin_denied_witness:
  "p_role wfp_admin_principal = Some (''wfp'' @ ''_admin'')
   \<and> ''wfp'' \<in> set (userModules wfp_admin_principal)
   \<and> authorize [''wfp_viewer''] (Some ''wfp'') (Some wfp_admin_principal)
       = Json 403 ''Access denied. Insufficient permissions.''"
  using authorize_unlisted_module_admin_denied
          [of wfp_admin_principal "''wfp''" "[''wfp_viewer'']"]
  by (simp add: wfp_admin_principal_def userModules_def)




section \<open>The cycle guard\<close>






section \<open>The stored roles\<close>

lemma User_save_roles:
  assumes "User_save users u = Inr users'"
    and "\<forall>v \<in> set users. u_role v \<in> set (None # map Some ROLES)"
  shows "\<forall>v \<in> set users'. u_role v \<in> set (None # map Some ROLES)"
  using assms
  by (auto simp: User_save_def userSchema_validate_def split: if_splits option.splits)

lemma persisted_roles:
  "persisted users \<Longrightarrow> \<forall>v \<in> set users. u_role v \<in> set (None # map Some ROLES)"
proof (induction rule: persisted.induct)
  case persisted_empty
  then show ?case by simp
next
  case (persisted_save users u users')
  then show ?case using User_save_roles by blast
qed

lemma ROLES_excluded:
  "r \<in> set (None # map Some ROLES) \<Longrightarrow>
     r \<noteq> Some ''super_admin'' \<and> r \<noteq> Some ''wfp_health_officer''"
  by (auto simp: ROLES_def)

lemma authenticate_role:
  assumes "authenticate e now users h = Inr p"
  shows "\<exists>u \<in> set users. p_role p = u_role u \<and> u_isActive u"
  using assms
  by (auto simp: authenticate_def User_findById_def dest!: find_SomeD
      split: option.splits auth_header.splits sum.splits jwt_error.splits if_splits)

lemma carol_document:
  "carol = \<lparr>u_id = 9, u_name = ''Carol'', u_email = ''carol@example.org'',
             u_password = ''S3cret!pw'', u_role = None, u_accessibleModules = [],
             u_isActive = True\<rparr>"
  by (simp add: carol_def new_User_def userSchema_set_def js_trim_def is_space_def
      toLowerCase_def toLowerCase_char_def)

text \<open>
  C10, as stated, fails: \<open>role\<close> is not required and its enumeration accepts
  \<open>null\<close>.  The document built with the role \<open>null\<close> is saved; its role is none
  of the six values, and \<open>authenticate\<close> attaches a principal with that role.
\<close>

theorem stored_role_null_counterexample:
  "User_save [] carol = Inr [carol] \<and> persisted [carol]
   \<and> u_role carol = None \<and> u_role carol \<notin> set (map Some ROLES)
   \<and> authenticate env0 1200000 [carol] (Some (Bearer carol_access))
       = Inr \<lparr>p_userId = 9, p_email = ''carol@example.org'', p_role = None,
               p_modules = None, p_assignedCycles = None\<rparr>"
proof -
  have norm: "userSchema_set carol = carol"
    by (simp add: carol_document userSchema_set_def js_trim_def is_space_def
        toLowerCase_def toLowerCase_char_def)
  have save: "User_save [] carol = Inr [carol]"
    by (simp add: User_save_def userSchema_validate_def carol_document)
  from persisted_empty have "persisted [carol]"
    by (rule persisted_save [where u = carol]) (simp add: norm save)
  moreover have "authenticate env0 1200000 [carol] (Some (Bearer carol_access))
       = Inr \<lparr>p_userId = 9, p_email = ''carol@example.org'', p_role = None,
               p_modules = None, p_assignedCycles = None\<rparr>"
    by (simp add: authenticate_def refresh_eval env0_def carol_access_def carol_document)
  ultimately show ?thesis using save by (simp add: carol_document)
qed

text \<open>
  C10, amended.  In every store that saves through the User model produce, each
  identity's role is \<open>null\<close> or one of the six values of \<open>ROLES\<close>, hence neither
  \<open>super_admin\<close> nor \<open>wfp_health_officer\<close>; and so is the role of every principal
  that \<open>authenticate\<close> attaches from such a store, which therefore never takes
  the \<open>super_admin\<close> branch of \<open>authorize\<close> and is never matched by a role list
  through the name \<open>wfp_health_officer\<close>.
\<close>

theorem stored_roles_closed:
  assumes "persisted users"
  shows "(u \<in> set users \<longrightarrow>
            u_role u \<in> set (None # map Some ROLES) \<and> u_role u \<noteq> Some ''super_admin''
            \<and> u_role u \<noteq> Some ''wfp_health_officer'')
       \<and> (authenticate e now users h = Inr p \<longrightarrow>
            p_role p \<in> set (None # map Some ROLES) \<and> p_role p \<noteq> Some ''super_admin''
            \<and> p_role p \<noteq> Some ''wfp_health_officer'')"
proof -
  have inv: "\<forall>v \<in> set users. u_role v \<in> set (None # map Some ROLES)"
    using assms by (rule persisted_roles)
  have one: "u \<in> set users \<longrightarrow>
      u_role u \<in> set (None # map Some ROLES) \<and> u_role u \<noteq> Some ''super_admin''
      \<and> u_role u \<noteq> Some ''wfp_health_officer''"
    using inv ROLES_excluded by blast
  have two: "p_role p \<in> set (None # map Some ROLES) \<and> p_role p \<noteq> Some ''super_admin''
             \<and> p_role p \<noteq> Some ''wfp_health_officer''"
    if "authenticate e now users h = Inr p"
  proof -
    from authenticate_role [OF that] inv have "p_role p \<in> set (None # map Some ROLES)"
      by auto
    then show ?thesis using ROLES_excluded by blast
  qed
  from one two show ?thesis by blast
qed

text \<open>
  An instance: the store after Alice's document is saved into the empty collection,
  and the principal attached for her access token.  A document with the role
  \<open>super_admin\<close> is refused by the same save.
\<close>

theorem stored_roles_closed_witness:
  "persisted [alice] \<and> u_role alice \<noteq> Some ''super_admin''
   \<and> authenticate env0 1200000 [alice] (Some (Bearer alice_access))
       = Inr \<lparr>p_userId = 7, p_email = ''alice@example.org'', p_role = Some ''wfp_viewer'',
               p_modules = None, p_assignedCycles = None\<rparr>
   \<and> User_save [] (alice\<lparr>u_role := Some ''super_admin''\<rparr>) = Inl ValidationError"
proof -
  have norm: "userSchema_set alice = alice"
    by (simp add: alice_def userSchema_set_def js_trim_def is_space_def
        toLowerCase_def toLowerCase_char_def)
  have "User_save [] alice = Inr [alice]"
    by (simp add: User_save_def userSchema_validate_def ROLES_def alice_def)
  with persisted_empty have p: "persisted [alice]"
    by (simp add: persisted_save [where u = alice and users = "[]"] norm)
  have a: "authenticate env0 1200000 [alice] (Some (Bearer alice_access))
       = Inr \<lparr>p_userId = 7, p_email = ''alice@example.org'', p_role = Some ''wfp_viewer'',
               p_modules = None, p_assignedCycles = None\<rparr>"
    by (simp add: authenticate_def refresh_eval example_data alice_access_def)
  have "User_save [] (alice\<lparr>u_role := Some ''super_admin''\<rparr>) = Inl ValidationError"
    by (simp add: User_save_def userSchema_validate_def ROLES_def alice_def)
  with p a stored_roles_closed [OF p, where u = alice and e = env0 and now = 1200000
      and h = "Some (Bearer alice_access)"]
  show ?thesis by simp
qed

section \<open>The two secrets\<close>





section \<open>The refresh exchange\<close>

lemma Token_findOne_used:
  assumes "\<And>d. d \<in> set docs \<Longrightarrow> t_token d = tok \<Longrightarrow> t_used d"
  shows "Token_findOne docs tok now = None"
  unfolding Token_findOne_def using assms by (intro find_NoneI) auto

lemma rt_begin_used:
  assumes "\<And>d. d \<in> set docs \<Longrightarrow> t_token d = tok \<Longrightarrow> t_used d"
    and "tok \<noteq> Garbage []"
  shows "rt_begin e now (Some tok) docs = Inl (Reply 401 ''Invalid refresh token'' None)
       \<or> rt_begin e now (Some tok) docs
            = Inl (Reply 401 ''Refresh token expired or invalid'' None)"
  using assms(2) Token_findOne_used [of docs tok now, OF assms(1)]
  by (auto simp: rt_begin_def split: sum.splits)

lemma rt_begin_Inl_status:
  "rt_begin e now body docs = Inl (Reply n m p) \<Longrightarrow> n = 400 \<or> n = 401"
  by (auto simp: rt_begin_def split: option.splits if_splits sum.splits)

lemma rt_load_Inl_status:
  "rt_load e now users decoded = Inl (Reply n m p) \<Longrightarrow> n = 401 \<or> n = 500"
  by (auto simp: rt_load_def split: option.splits)

lemma Token_markUsed_token: "map t_token (Token_markUsed docs i) = map t_token docs"
  by (simp add: Token_markUsed_def comp_def if_distrib [of t_token] cong: if_cong)

lemma Token_markUsed_mem:
  "d' \<in> set (Token_markUsed docs i) \<Longrightarrow>
     \<exists>d \<in> set docs. d' = (if t_id d = i then d\<lparr>t_used := True\<rparr> else d)"
  by (auto simp: Token_markUsed_def)

text \<open>
  C7, as stated, fails: the replay of Alice's used refresh token is refused with
  401 and the store is returned as it was, so her other outstanding refresh token
  is still unused, and its exchange afterwards succeeds.
\<close>

theorem replay_revokes_nothing_counterexample:
  "refreshToken env0 \<lparr>c_begin = 2000000, c_load = 2000100, c_finish = 2000200\<rparr>
     (Some alice_refresh) [alice, bob] alice_store_replayed
     = (Reply 401 ''Refresh token expired or invalid'' None, alice_store_replayed)
   \<and> map t_used alice_store_replayed = [True, False]
   \<and> fst (refreshToken env0 \<lparr>c_begin = 3000000, c_load = 3000100, c_finish = 3000200\<rparr>
        (Some alice_refresh2) [alice, bob] alice_store_replayed)
       = Reply 200 ''Token refreshed successfully''
           (Some (Signed (AccessClaims 7 ''alice@example.org'' (Some ''wfp_viewer'') None)
                    ''access-secret'' 3000 3900,
                  Signed (RefreshClaims 7) ''refresh-secret'' 3000 607800))"
  by (simp add: refresh_eval example_data)

text \<open>
  C7, amended.  When the exchange is attempted with a refresh token whose stored
  records are all marked used, the request is refused with 401 and the store is
  left exactly as it was: no other credential of the subject is revoked.
\<close>

theorem replay_rejected_store_unchanged:
  assumes used: "\<And>d. d \<in> set docs \<Longrightarrow> t_token d = tok \<Longrightarrow> t_used d"
    and stored: "tok \<in> set (map t_token docs)"
    and nonempty: "tok \<noteq> Garbage []"
  shows "refreshToken e c (Some tok) users docs = (Reply 401 ''Invalid refresh token'' None, docs)
       \<or> refreshToken e c (Some tok) users docs
            = (Reply 401 ''Refresh token expired or invalid'' None, docs)"
  using rt_begin_used [of docs tok e "c_begin c", OF used nonempty]
  by (auto simp: refreshToken_def)

text \<open>An instance: a used token of Bob's, replayed.\<close>

theorem replay_rejected_store_unchanged_witness:
  "bob_refresh \<in> set (map t_token (Token_markUsed bob_store 1))
   \<and> map t_used (Token_markUsed bob_store 1) = [True]
   \<and> refreshToken env0 \<lparr>c_begin = 2000000, c_load = 2000100, c_finish = 2000200\<rparr>
        (Some bob_refresh) [alice, bob] (Token_markUsed bob_store 1)
       = (Reply 401 ''Refresh token expired or invalid'' None, Token_markUsed bob_store 1)"
proof -
  have used: "\<And>d. d \<in> set (Token_markUsed bob_store 1) \<Longrightarrow> t_token d = bob_refresh \<Longrightarrow> t_used d"
    by (simp add: Token_markUsed_def bob_store_def)
  have stored: "bob_refresh \<in> set (map t_token (Token_markUsed bob_store 1))"
    by (simp add: Token_markUsed_def bob_store_def)
  have nonempty: "bob_refresh \<noteq> Garbage []"
    by (simp add: bob_refresh_def)
  have ev: "refreshToken env0 \<lparr>c_begin = 2000000, c_load = 2000100, c_finish = 2000200\<rparr>
          (Some bob_refresh) [alice, bob] (Token_markUsed bob_store 1)
        = (Reply 401 ''Refresh token expired or invalid'' None, Token_markUsed bob_store 1)"
    by (simp add: refresh_eval example_data)
  from replay_rejected_store_unchanged [OF used stored nonempty, of env0
      "\<lparr>c_begin = 2000000, c_load = 2000100, c_finish = 2000200\<rparr>" "[alice, bob]"]
    stored ev
  show ?thesis by (simp add: Token_markUsed_def bob_store_def)
qed

subsection \<open>Deactivated accounts\<close>

text \<open>
  The authentication middleware refuses a valid, unexpired access token of a
  deactivated account.
\<close>

lemma authenticate_inactive_forbidden:
  assumes "jwt_verify tok (JWT_SECRET e) now = Inr decoded"
    and "User_findById users (claims_userId decoded) = Some u"
    and "\<not> u_isActive u"
  shows "authenticate e now users (Some (Bearer tok)) = Inl (403, ''Account is deactivated'')"
  using assms by (simp add: authenticate_def)

text \<open>
  The refresh exchange does not depend on \<open>isActive\<close>: its reply and its store
  are the same whatever the flags of the stored users are.
\<close>

lemma find_map: "find P (map g xs) = map_option g (find (\<lambda>x. P (g x)) xs)"
  by (induction xs) auto

lemma rt_load_isActive:
  "rt_load e now (map (\<lambda>u. u\<lparr>u_isActive := f u\<rparr>) users) decoded
     = map_sum id (\<lambda>(u, a, r). (u\<lparr>u_isActive := f u\<rparr>, a, r)) (rt_load e now users decoded)"
  by (auto simp: rt_load_def User_findById_def find_map generateTokens_def user_modules_def
      split: option.splits)

lemma rt_finish_isActive:
  "rt_finish now docs (u\<lparr>u_isActive := b\<rparr>) a r = rt_finish now docs u a r"
  by (simp add: rt_finish_def)

lemma refreshToken_ignores_isActive:
  "refreshToken e c body (map (\<lambda>u. u\<lparr>u_isActive := f u\<rparr>) users) docs
     = refreshToken e c body users docs"
  by (auto simp: refreshToken_def rt_load_isActive rt_finish_isActive
      split: sum.splits prod.splits)

text \<open>
  C3.  The claim holds for the authentication middleware and fails for the refresh
  exchange, which loads the user and never reads \<open>isActive\<close>: for the deactivated
  Bob, the valid access token is refused with 403, and the exchange of his refresh
  token answers 200 with a new pair and stores the new refresh token.
\<close>

theorem refreshToken_inactive_user_issues:
  "u_isActive bob = False
   \<and> authenticate env0 1200000 [alice, bob] (Some (Bearer bob_access))
       = Inl (403, ''Account is deactivated'')
   \<and> refreshToken env0 \<lparr>c_begin = 2000000, c_load = 2000100, c_finish = 2000200\<rparr>
        (Some bob_refresh) [alice, bob] bob_store
       = (Reply 200 ''Token refreshed successfully''
            (Some (Signed (AccessClaims 8 ''bob@example.org'' (Some ''dube_viewer'') None)
                     ''access-secret'' 2000 2900,
                   Signed (RefreshClaims 8) ''refresh-secret'' 2000 606800)),
          [\<lparr>t_id = 1, t_userId = 8, t_token = bob_refresh, t_type = ''refresh'',
             t_expiresAt = 605800000, t_used = True\<rparr>,
           \<lparr>t_id = 2, t_userId = 8,
             t_token = Signed (RefreshClaims 8) ''refresh-secret'' 2000 606800,
             t_type = ''refresh'', t_expiresAt = 606800200, t_used = False\<rparr>])"
  by (simp add: authenticate_def refresh_eval example_data)

subsection \<open>One exchange after the other\<close>

lemma refreshToken_success_marks:
  assumes uniq: "distinct (map t_token docs)"
    and ok: "refreshToken e c (Some tok) users docs = (Reply 200 m p, docs')"
  shows "\<forall>d \<in> set docs'. t_token d = tok \<longrightarrow> t_used d"
proof -
  from ok obtain decoded tokenDoc u a r where
    b: "rt_begin e (c_begin c) (Some tok) docs = Inr (decoded, tokenDoc)"
    and l: "rt_load e (c_load c) users decoded = Inr (u, a, r)"
    and f: "rt_finish (c_finish c) (rt_mark docs tokenDoc) u a r = (Reply 200 m p, docs')"
    by (auto simp: refreshToken_def split: sum.splits prod.splits
        dest: rt_begin_Inl_status rt_load_Inl_status)
  from b have "Token_findOne docs tok (c_begin c) = Some tokenDoc"
    by (auto simp: rt_begin_def split: if_splits sum.splits option.splits)
  then have td: "tokenDoc \<in> set docs" "t_token tokenDoc = tok"
    by (auto simp: Token_findOne_def dest: find_SomeD)
  let ?marked = "rt_mark docs tokenDoc"
  from f have fresh: "r \<notin> set (map t_token ?marked)"
    and docs': "docs' = ?marked @ [\<lparr>t_id = fresh_id ?marked, t_userId = u_id u, t_token = r,
         t_type = ''refresh'', t_expiresAt = c_finish c + 7 * 24 * 60 * 60 * 1000,
         t_used = False\<rparr>]"
    by (auto simp: rt_finish_def saveRefreshToken_def Token_create_def
        split: if_splits sum.splits)
  from fresh have "r \<notin> t_token ` set docs"
    by (simp add: rt_mark_def Token_markUsed_token del: set_map) simp
  with td have "r \<noteq> tok" by blast
  moreover have "t_used d'" if "d' \<in> set ?marked" "t_token d' = tok" for d'
  proof -
    from that(1) obtain d where d: "d \<in> set docs"
      "d' = (if t_id d = t_id tokenDoc then d\<lparr>t_used := True\<rparr> else d)"
      unfolding rt_mark_def by (blast dest: Token_markUsed_mem)
    with that(2) have "t_token d = tok" by (auto split: if_splits)
    with uniq d(1) td have "d = tokenDoc" by (auto dest: distinct_map_eq)
    with d(2) show ?thesis by simp
  qed
  ultimately show ?thesis unfolding docs' by auto
qed

text \<open>
  Handled one after the other, on a store that respects the unique index on
  \<open>token\<close>, a second exchange of a token whose first exchange succeeded is refused
  with 401, whatever the clock and the users then are, and changes nothing.
\<close>

lemma refreshToken_second_exchange_rejected:
  assumes uniq: "distinct (map t_token docs)"
    and ok: "refreshToken e c (Some tok) users docs = (Reply 200 m p, docs')"
  shows "refreshToken e c' (Some tok) users' docs'
           = (Reply 401 ''Invalid refresh token'' None, docs')
       \<or> refreshToken e c' (Some tok) users' docs'
            = (Reply 401 ''Refresh token expired or invalid'' None, docs')"
proof -
  from ok have ne: "tok \<noteq> Garbage []"
    by (auto simp: refreshToken_def rt_begin_def split: if_splits)
  from refreshToken_success_marks [OF uniq ok]
  have "\<And>d. d \<in> set docs' \<Longrightarrow> t_token d = tok \<Longrightarrow> t_used d" by blast
  from rt_begin_used [of docs' tok e "c_begin c'", OF this ne]
  show ?thesis by (auto simp: refreshToken_def)
qed

text \<open>
  An exchange in the second in which the token was issued signs the same refresh
  token again; the unique index refuses it, the request ends with 500, and the old
  record stays marked used.
\<close>

lemma refreshToken_same_second_collision:
  "refreshToken env0 \<lparr>c_begin = 1000300, c_load = 1000400, c_finish = 1000500\<rparr>
     (Some alice_refresh) [alice] alice_store
     = (Reply 500 ''Token refresh failed'' None, Token_markUsed alice_store 1)"
  by (simp add: refresh_eval example_data)

subsection \<open>Two exchanges in flight\<close>

lemma server_stepI:
  assumes "now \<le> now'" and "i < length rs"
    and "rt_step e now' users (rs ! i) docs = Some (s', docs')"
    and "rs' = rs[i := s']"
  shows "server_step e users (now, rs, docs) (now', rs', docs')"
  using assms server_step.intros by blast

text \<open>
  A request alone in flight runs through its stretches to the reply and the store
  of \<open>refreshToken\<close>.
\<close>

lemma refreshToken_run:
  assumes t: "t \<le> c_begin c" "c_begin c \<le> c_load c" "c_load c \<le> c_finish c"
  shows "\<exists>t'. (server_step e users)\<^sup>*\<^sup>* (t, [Start body], docs)
           (t', [Done (fst (refreshToken e c body users docs))],
            snd (refreshToken e c body users docs))"
proof (cases "rt_begin e (c_begin c) body docs")
  case (Inl rep)
  have "server_step e users (t, [Start body], docs) (c_begin c, [Done rep], docs)"
    using t Inl by (intro server_stepI [where i = 0 and s' = "Done rep"]) simp_all
  then show ?thesis using Inl by (auto simp: refreshToken_def)
next
  case (Inr found)
  obtain decoded tokenDoc where found: "found = (decoded, tokenDoc)" by (cases found)
  have s1: "server_step e users (t, [Start body], docs)
              (c_begin c, [Found decoded tokenDoc], docs)"
    using t Inr found
    by (intro server_stepI [where i = 0 and s' = "Found decoded tokenDoc"]) simp_all
  show ?thesis
  proof (cases "rt_load e (c_load c) users decoded")
    case (Inl rep)
    have "server_step e users (c_begin c, [Found decoded tokenDoc], docs)
            (c_load c, [Done rep], docs)"
      using t Inl by (intro server_stepI [where i = 0 and s' = "Done rep"]) simp_all
    with s1 have "(server_step e users)\<^sup>*\<^sup>* (t, [Start body], docs)
                    (c_load c, [Done rep], docs)"
      by (meson rtranclp.rtrancl_into_rtrancl rtranclp.rtrancl_refl)
    then show ?thesis using Inl Inr found by (auto simp: refreshToken_def)
  next
    case loaded: (Inr l)
    obtain u a r where l: "l = (u, a, r)" by (cases l)
    obtain rep docs' where
      fin: "rt_finish (c_finish c) (rt_mark docs tokenDoc) u a r = (rep, docs')"
      by (cases "rt_finish (c_finish c) (rt_mark docs tokenDoc) u a r")
    have s2: "server_step e users (c_begin c, [Found decoded tokenDoc], docs)
                (c_load c, [Loaded u a r tokenDoc], docs)"
      using t loaded l
      by (intro server_stepI [where i = 0 and s' = "Loaded u a r tokenDoc"]) simp_all
    have s3: "server_step e users (c_load c, [Loaded u a r tokenDoc], docs)
                (c_load c, [Marked u a r], rt_mark docs tokenDoc)"
      by (intro server_stepI [where i = 0 and s' = "Marked u a r"]) simp_all
    have s4: "server_step e users (c_load c, [Marked u a r], rt_mark docs tokenDoc)
                (c_finish c, [Done rep], docs')"
      using t fin by (intro server_stepI [where i = 0 and s' = "Done rep"]) simp_all
    from s1 s2 s3 s4
    have "(server_step e users)\<^sup>*\<^sup>* (t, [Start body], docs) (c_finish c, [Done rep], docs')"
      by (meson rtranclp.rtrancl_into_rtrancl rtranclp.rtrancl_refl)
    then show ?thesis using Inr found loaded l fin by (auto simp: refreshToken_def)
  qed
qed

text \<open>
  C2.  The claim holds for exchanges handled one after the other (lemma
  \<open>refreshToken_second_exchange_rejected\<close>) and fails for exchanges in flight
  together: the record is read in one stretch and marked used in a later one.  In
  the run below two requests carry Alice's refresh token; both read the unused
  record before either marks it, and both answer 200 with a pair of their own, so
  that the store ends with two outstanding refresh tokens.
\<close>

theorem refreshToken_concurrent_both_succeed:
  "(server_step env0 [alice])\<^sup>*\<^sup>*
     (2000000, [Start (Some alice_refresh), Start (Some alice_refresh)], alice_store)
     (2001200,
      [Done (Reply 200 ''Token refreshed successfully''
         (Some (Signed (AccessClaims 7 ''alice@example.org'' (Some ''wfp_viewer'') None)
                  ''access-secret'' 2000 2900,
                Signed (RefreshClaims 7) ''refresh-secret'' 2000 606800))),
       Done (Reply 200 ''Token refreshed successfully''
         (Some (Signed (AccessClaims 7 ''alice@example.org'' (Some ''wfp_viewer'') None)
                  ''access-secret'' 2001 2901,
                Signed (RefreshClaims 7) ''refresh-secret'' 2001 606801)))],
      [\<lparr>t_id = 1, t_userId = 7, t_token = alice_refresh, t_type = ''refresh'',
         t_expiresAt = 605800000, t_used = True\<rparr>,
       \<lparr>t_id = 2, t_userId = 7,
         t_token = Signed (RefreshClaims 7) ''refresh-secret'' 2000 606800,
         t_type = ''refresh'', t_expiresAt = 606801100, t_used = False\<rparr>,
       \<lparr>t_id = 3, t_userId = 7,
         t_token = Signed (RefreshClaims 7) ''refresh-secret'' 2001 606801,
         t_type = ''refresh'', t_expiresAt = 606801200, t_used = False\<rparr>])"
proof -
  let ?R = "server_step env0 [alice]"
  let ?T = "Start (Some alice_refresh)"
  let ?old = "\<lparr>t_id = 1, t_userId = 7, t_token = alice_refresh, t_type = ''refresh'',
                t_expiresAt = 605800000, t_used = False\<rparr>"
  let ?F = "Found (RefreshClaims 7) ?old"
  let ?a1 = "Signed (AccessClaims 7 ''alice@example.org'' (Some ''wfp_viewer'') None)
               ''access-secret'' 2000 2900"
  let ?r1 = "Signed (RefreshClaims 7) ''refresh-secret'' 2000 606800"
  let ?a2 = "Signed (AccessClaims 7 ''alice@example.org'' (Some ''wfp_viewer'') None)
               ''access-secret'' 2001 2901"
  let ?r2 = "Signed (RefreshClaims 7) ''refresh-secret'' 2001 606801"
  let ?marked = "[?old\<lparr>t_used := True\<rparr>]"
  let ?new1 = "\<lparr>t_id = 2, t_userId = 7, t_token = ?r1, t_type = ''refresh'',
                 t_expiresAt = 606801100, t_used = False\<rparr>"
  let ?new2 = "\<lparr>t_id = 3, t_userId = 7, t_token = ?r2, t_type = ''refresh'',
                 t_expiresAt = 606801200, t_used = False\<rparr>"
  let ?ok1 = "Done (Reply 200 ''Token refreshed successfully'' (Some (?a1, ?r1)))"
  let ?ok2 = "Done (Reply 200 ''Token refreshed successfully'' (Some (?a2, ?r2)))"
  let ?c0 = "(2000000, [?T, ?T], alice_store)"
  have s1: "?R ?c0 (2000000, [?F, ?T], alice_store)"
    by (rule server_stepI [where i = 0 and s' = "?F"])
       (simp_all add: refresh_eval example_data)
  have s2: "?R (2000000, [?F, ?T], alice_store) (2000100, [?F, ?F], alice_store)"
    by (rule server_stepI [where i = 1 and s' = "?F"])
       (simp_all add: refresh_eval example_data)
  have s3: "?R (2000100, [?F, ?F], alice_store)
               (2000200, [Loaded alice ?a1 ?r1 ?old, ?F], alice_store)"
    by (rule server_stepI [where i = 0 and s' = "Loaded alice ?a1 ?r1 ?old"])
       (simp_all add: refresh_eval example_data)
  have s4: "?R (2000200, [Loaded alice ?a1 ?r1 ?old, ?F], alice_store)
               (2001000, [Loaded alice ?a1 ?r1 ?old, Loaded alice ?a2 ?r2 ?old], alice_store)"
    by (rule server_stepI [where i = 1 and s' = "Loaded alice ?a2 ?r2 ?old"])
       (simp_all add: refresh_eval example_data)
  have s5: "?R (2001000, [Loaded alice ?a1 ?r1 ?old, Loaded alice ?a2 ?r2 ?old], alice_store)
               (2001050, [Marked alice ?a1 ?r1, Loaded alice ?a2 ?r2 ?old], ?marked)"
    by (rule server_stepI [where i = 0 and s' = "Marked alice ?a1 ?r1"])
       (simp_all add: refresh_eval example_data)
  have s6: "?R (2001050, [Marked alice ?a1 ?r1, Loaded alice ?a2 ?r2 ?old], ?marked)
               (2001060, [Marked alice ?a1 ?r1, Marked alice ?a2 ?r2], ?marked)"
    by (rule server_stepI [where i = 1 and s' = "Marked alice ?a2 ?r2"])
       (simp_all add: refresh_eval example_data)
  have s7: "?R (2001060, [Marked alice ?a1 ?r1, Marked alice ?a2 ?r2], ?marked)
               (2001100, [?ok1, Marked alice ?a2 ?r2], ?marked @ [?new1])"
    by (rule server_stepI [where i = 0 and s' = "?ok1"])
       (simp_all add: refresh_eval example_data)
  have s8: "?R (2001100, [?ok1, Marked alice ?a2 ?r2], ?marked @ [?new1])
               (2001200, [?ok1, ?ok2], ?marked @ [?new1, ?new2])"
    by (rule server_stepI [where i = 1 and s' = "?ok2"])
       (simp_all add: refresh_eval example_data)
  have "?R\<^sup>*\<^sup>* ?c0 ?c0" by (rule rtranclp.rtrancl_refl)
  from this s1 have "?R\<^sup>*\<^sup>* ?c0 (2000000, [?F, ?T], alice_store)"
    by (rule rtranclp.rtrancl_into_rtrancl)
  from this s2 have "?R\<^sup>*\<^sup>* ?c0 (2000100, [?F, ?F], alice_store)"
    by (rule rtranclp.rtrancl_into_rtrancl)
  from this s3 have "?R\<^sup>*\<^sup>* ?c0 (2000200, [Loaded alice ?a1 ?r1 ?old, ?F], alice_store)"
    by (rule rtranclp.rtrancl_into_rtrancl)
  from this s4
  have "?R\<^sup>*\<^sup>* ?c0
          (2001000, [Loaded alice ?a1 ?r1 ?old, Loaded alice ?a2 ?r2 ?old], alice_store)"
    by (rule rtranclp.rtrancl_into_rtrancl)
  from this s5
  have "?R\<^sup>*\<^sup>* ?c0 (2001050, [Marked alice ?a1 ?r1, Loaded alice ?a2 ?r2 ?old], ?marked)"
    by (rule rtranclp.rtrancl_into_rtrancl)
  from this s6
  have "?R\<^sup>*\<^sup>* ?c0 (2001060, [Marked alice ?a1 ?r1, Marked alice ?a2 ?r2], ?marked)"
    by (rule rtranclp.rtrancl_into_rtrancl)
  from this s7
  have "?R\<^sup>*\<^sup>* ?c0 (2001100, [?ok1, Marked alice ?a2 ?r2], ?marked @ [?new1])"
    by (rule rtranclp.rtrancl_into_rtrancl)
  from this s8
  have "?R\<^sup>*\<^sup>* ?c0 (2001200, [?ok1, ?ok2], ?marked @ [?new1, ?new2])"
    by (rule rtranclp.rtrancl_into_rtrancl)
  then show ?thesis by simp
qed

end
